theory Spec2Isabelle
  imports Complex_Main "HOL-Library.Multiset"
begin

section \<open>Strings\<close>

text \<open>
  A JavaScript string is modelled by a HOL \<open>string\<close>, each \<open>char\<close> being one code unit
  below 256 (the Latin-1 range). On such strings \<open>trim\<close>, \<open>toLowerCase\<close> and
  \<open>includes_str\<close> below compute what \<^verbatim>\<open>String.prototype.trim\<close>,
  \<^verbatim>\<open>toLowerCase\<close> and \<^verbatim>\<open>includes\<close> compute.
\<close>

definition isWhiteSpace :: "char \<Rightarrow> bool" where
  "isWhiteSpace c = (of_char c \<in> {9, 10, 11, 12, 13, 32, 160 :: nat})"

definition trim :: "string \<Rightarrow> string" where
  "trim s = rev (dropWhile isWhiteSpace (rev (dropWhile isWhiteSpace s)))"

definition isUpper :: "char \<Rightarrow> bool" where
  "isUpper c = (let n = (of_char c :: nat) in
     (65 \<le> n \<and> n \<le> 90) \<or> (192 \<le> n \<and> n \<le> 222 \<and> n \<noteq> 215))"

definition lowerChar :: "char \<Rightarrow> char" where
  "lowerChar c = (if isUpper c then char_of (of_char c + (32 :: nat)) else c)"

definition toLowerCase :: "string \<Rightarrow> string" where
  "toLowerCase s = map lowerChar s"

fun includes_str :: "string \<Rightarrow> string \<Rightarrow> bool" where
  "includes_str [] k = (k = [])"
| "includes_str (c # s) k = (take (length k) (c # s) = k \<or> includes_str s k)"

definition digitChar :: "nat \<Rightarrow> char" where
  "digitChar n = char_of (48 + n)"

text \<open>Decimal digits of a natural number (\<^verbatim>\<open>`${n}`\<close>, \<^verbatim>\<open>n.toString()\<close>).\<close>

function showNat :: "nat \<Rightarrow> string" where
  "showNat n = (if n < 10 then [digitChar n] else showNat (n div 10) @ [digitChar (n mod 10)])"
  by pat_completeness auto
termination
  by (relation "measure (\<lambda>n. n)") auto

declare showNat.simps [simp del]

definition digitVal :: "char \<Rightarrow> nat option" where
  "digitVal c = (let n = (of_char c :: nat) in if 48 \<le> n \<and> n \<le> 57 then Some (n - 48) else None)"

fun digitsFrom :: "nat \<Rightarrow> string \<Rightarrow> nat option" where
  "digitsFrom acc [] = Some acc"
| "digitsFrom acc (c # cs) =
     (case digitVal c of None \<Rightarrow> None | Some d \<Rightarrow> digitsFrom (10 * acc + d) cs)"

text \<open>The number written by a non-empty string of decimal digits.\<close>

definition digitsVal :: "string \<Rightarrow> nat option" where
  "digitsVal s = (if s = [] then None else digitsFrom 0 s)"

section \<open>Data model\<close>

text \<open>
  An entry as the backend returns it. \<open>entry_note = None\<close> is a missing
  (\<^verbatim>\<open>null\<close>/\<^verbatim>\<open>undefined\<close>) note. Amounts are exact rationals: the rounding of
  the runtime's binary floating point is not modelled.
\<close>

record entry =
  entry_id :: int
  entry_date :: string
  entry_type :: string
  entry_amount :: rat
  entry_note :: "string option"

record summary =
  total_in :: rat
  total_out :: rat
  balance :: rat

text \<open>
  Arrays of entries are objects with identity: \<^verbatim>\<open>sort\<close> works in place, while
  \<^verbatim>\<open>slice\<close>, \<^verbatim>\<open>filter\<close> and the spread \<^verbatim>\<open>[...xs]\<close> allocate. The store
  is the list of all arrays allocated so far; an address is an index into it.
\<close>

type_synonym addr = nat
type_synonym store = "entry list list"

record state =
  username :: string
  activeCashbook :: string
  allEntries :: addr
  summary :: summary

text \<open>The runtime library the program calls, taken as parameters.\<close>

record env =
  currencyFormat :: "rat option \<Rightarrow> string"
    \<comment> \<open>\<^verbatim>\<open>Intl.NumberFormat("en-IN", {...}).format\<close>; \<open>None\<close> is NaN\<close>
  toFixed :: "nat \<Rightarrow> rat \<Rightarrow> string"
    \<comment> \<open>\<^verbatim>\<open>x.toFixed(digits)\<close>\<close>
  numberToString :: "rat \<Rightarrow> string"
    \<comment> \<open>\<^verbatim>\<open>String(x)\<close> of a number\<close>
  dateParse :: "string \<Rightarrow> int option"
    \<comment> \<open>time value of \<^verbatim>\<open>new Date(s)\<close> for strings outside the date-only ISO form\<close>
  now :: int
    \<comment> \<open>time value of \<^verbatim>\<open>new Date()\<close>\<close>
  daysBefore :: "int \<Rightarrow> int \<Rightarrow> int"
    \<comment> \<open>time value of \<^verbatim>\<open>d.setDate(d.getDate() - k)\<close>, local calendar arithmetic\<close>
  localeDateString :: string
    \<comment> \<open>\<^verbatim>\<open>new Date().toLocaleDateString()\<close>\<close>

section \<open>The page\<close>

datatype row =
  EmptyState string
| EntryRow (row_type: string) (row_date: string) (row_label: string) (row_amount: string)
    (row_note: "string option") (row_delete: int)

datatype insight =
  KeepLogging
| SpendingTotals string
| CashInflows string
| WeekChange string string
| NewSpending
| TopSpendingNote string string
| NegativeBalance
| SteadyCashFlow

text \<open>
  Each field is an element looked up by id, \<open>None\<close> when the document has no such element.
  \<open>row_note = None\<close> is the placeholder glyph of an entry without note. The fixed texts
  of the insight messages are the constructors of \<open>insight\<close>; their arguments are the
  interpolated parts.
\<close>

record dom =
  search_input :: "string option"
  date_filter :: "string option"
  transaction_body :: "row list option"
  entry_count :: "string option"
  insights_list :: "insight list option"
  toast_container :: "(string \<times> string) list option"

record world =
  st :: state
  page :: dom
  heap :: store

definition alloc :: "store \<Rightarrow> entry list \<Rightarrow> store \<times> addr" where
  "alloc h xs = (h @ [xs], length h)"

definition slice :: "store \<Rightarrow> addr \<Rightarrow> store \<times> addr" where
  "slice h a = alloc h (h ! a)"

definition filterArray :: "(entry \<Rightarrow> bool) \<Rightarrow> store \<Rightarrow> addr \<Rightarrow> store \<times> addr" where
  "filterArray p h a = alloc h (filter p (h ! a))"

definition showToast :: "world \<Rightarrow> string \<Rightarrow> string \<Rightarrow> world" where
  "showToast w message type =
     (case toast_container (page w) of
        None \<Rightarrow> w
      | Some toasts \<Rightarrow> w\<lparr>page := (page w)\<lparr>toast_container := Some (toasts @ [(message, type)])\<rparr>\<rparr>)"

section \<open>Dates\<close>

text \<open>
  \<^verbatim>\<open>new Date(s)\<close> reads a date-only string \<^verbatim>\<open>YYYY-MM-DD\<close> that names a calendar
  day as midnight UTC of that day; what it makes of every other string is left to the
  runtime (\<open>dateParse\<close>). \<open>None\<close> is the invalid date, whose time value is NaN.
\<close>

definition isLeapYear :: "nat \<Rightarrow> bool" where
  "isLeapYear y = (y mod 4 = 0 \<and> (y mod 100 \<noteq> 0 \<or> y mod 400 = 0))"

definition daysInMonth :: "nat \<Rightarrow> nat \<Rightarrow> nat" where
  "daysInMonth y m =
     (if m = 2 then (if isLeapYear y then 29 else 28)
      else if m = 4 \<or> m = 6 \<or> m = 9 \<or> m = 11 then 30 else 31)"

text \<open>Days from 1970-01-01 to the given day of the proleptic Gregorian calendar.\<close>

definition daysFromCivil :: "int \<Rightarrow> int \<Rightarrow> int \<Rightarrow> int" where
  "daysFromCivil y m d =
     (let y' = (if m \<le> 2 then y - 1 else y);
          era = y' div 400;
          yoe = y' - era * 400;
          doy = (153 * (if m > 2 then m - 3 else m + 9) + 2) div 5 + d - 1;
          doe = yoe * 365 + yoe div 4 - yoe div 100 + doy
      in era * 146097 + doe - 719468)"

definition isoDate :: "string \<Rightarrow> int option" where
  "isoDate s =
     (if length s = 10 \<and> s ! 4 = CHR ''-'' \<and> s ! 7 = CHR ''-'' then
        (case (digitsVal (take 4 s), digitsVal (take 2 (drop 5 s)), digitsVal (drop 8 s)) of
           (Some y, Some m, Some d) \<Rightarrow>
             if 1 \<le> m \<and> m \<le> 12 \<and> 1 \<le> d \<and> d \<le> daysInMonth y m
             then Some (daysFromCivil (int y) (int m) (int d) * 86400000)
             else None
         | _ \<Rightarrow> None)
      else None)"

definition dateTime :: "env \<Rightarrow> string \<Rightarrow> int option" where
  "dateTime env s = (case isoDate s of Some t \<Rightarrow> Some t | None \<Rightarrow> dateParse env s)"

section \<open>Sorting an array\<close>

text \<open>
  \<^verbatim>\<open>Array.prototype.sort(comparefn)\<close> is a stable sort; a comparator result that is
  NaN (\<open>None\<close>) counts as zero. For a consistent comparator the result is the one of the
  stable insertion sort below; for an inconsistent one the language leaves the order to
  the runtime, and the insertion sort is one such order.
\<close>

fun isPositive :: "('n :: {zero, ord}) option \<Rightarrow> bool" where
  "isPositive None = False"
| "isPositive (Some v) = (0 < v)"

fun insertBy :: "('a \<Rightarrow> 'a \<Rightarrow> ('n :: {zero, ord}) option) \<Rightarrow> 'a \<Rightarrow> 'a list \<Rightarrow> 'a list" where
  "insertBy cmp x [] = [x]"
| "insertBy cmp x (y # ys) =
     (if isPositive (cmp x y) then y # insertBy cmp x ys else x # y # ys)"

definition sortArray :: "('a \<Rightarrow> 'a \<Rightarrow> ('n :: {zero, ord}) option) \<Rightarrow> 'a list \<Rightarrow> 'a list" where
  "sortArray cmp xs = foldr (insertBy cmp) xs []"

definition sortInPlace :: "(entry \<Rightarrow> entry \<Rightarrow> int option) \<Rightarrow> store \<Rightarrow> addr \<Rightarrow> store" where
  "sortInPlace cmp h a = h[a := sortArray cmp (h ! a)]"

fun minusOpt :: "('n :: minus) option \<Rightarrow> 'n option \<Rightarrow> 'n option" where
  "minusOpt (Some u) (Some v) = Some (u - v)"
| "minusOpt _ _ = None"

text \<open>The comparator \<^verbatim>\<open>(a, b) => new Date(b.date) - new Date(a.date)\<close>.\<close>

definition byDateDesc :: "env \<Rightarrow> entry \<Rightarrow> entry \<Rightarrow> int option" where
  "byDateDesc env a b = minusOpt (dateTime env (entry_date b)) (dateTime env (entry_date a))"

section \<open>Formatter\<close>

text \<open>
  A value that reaches the formatter is a number or, from the note totals only, a
  non-numeric text (see \<open>noteStep\<close>), which \<^verbatim>\<open>Number\<close> turns into NaN.
\<close>

datatype total = Num rat | Text

definition formatCurrency :: "env \<Rightarrow> total \<Rightarrow> string" where
  "formatCurrency env amount =
     currencyFormat env (case amount of Num v \<Rightarrow> Some v | Text \<Rightarrow> None)"

definition truthy :: "string option \<Rightarrow> bool" where
  "truthy v = (case v of None \<Rightarrow> False | Some s \<Rightarrow> s \<noteq> [])"

definition sumAmounts :: "entry list \<Rightarrow> rat" where
  "sumAmounts es = foldl (\<lambda>sum e. sum + entry_amount e) 0 es"

section \<open>Insights generator\<close>

text \<open>
  The accumulator of the note totals is a plain object: its own properties in creation
  order. A key it does not own is looked up in \<^verbatim>\<open>Object.prototype\<close>: the names below
  yield a function there, and \<^verbatim>\<open>__proto__\<close> yields the prototype itself and ignores
  the assignment of a string. Adding a number to either gives a text.
\<close>

type_synonym obj = "(string \<times> total) list"

definition prototypeNames :: "string list" where
  "prototypeNames =
     [''constructor'', ''__defineGetter__'', ''__defineSetter__'', ''hasOwnProperty'',
      ''__lookupGetter__'', ''__lookupSetter__'', ''isPrototypeOf'', ''propertyIsEnumerable'',
      ''toString'', ''valueOf'', ''toLocaleString'']"

fun setProp :: "string \<Rightarrow> total \<Rightarrow> obj \<Rightarrow> obj" where
  "setProp k v [] = [(k, v)]"
| "setProp k v (p # ps) = (if fst p = k then (k, v) # ps else p # setProp k v ps)"

text \<open>One step of the \<^verbatim>\<open>reduce\<close>:
  \<^verbatim>\<open>acc[key] = (acc[key] || 0) + Number(entry.amount)\<close>. The entries it runs over have a
  note, the \<^verbatim>\<open>filter\<close> before it sees to that.\<close>

definition noteStep :: "obj \<Rightarrow> entry \<Rightarrow> obj" where
  "noteStep acc entry =
     (case entry_note entry of
        None \<Rightarrow> acc
      | Some s \<Rightarrow>
          (let key = toLowerCase (trim s) in
           case map_of acc key of
             Some (Num v) \<Rightarrow> setProp key (Num (v + entry_amount entry)) acc
           | Some Text \<Rightarrow> setProp key Text acc
           | None \<Rightarrow>
               if key = ''__proto__'' then acc
               else if key \<in> set prototypeNames then setProp key Text acc
               else setProp key (Num (0 + entry_amount entry)) acc))"

text \<open>\<^verbatim>\<open>Object.entries\<close>: the keys that are array indices first, in ascending numeric
  order, then the other keys in creation order.\<close>

definition arrayIndex :: "string \<Rightarrow> nat option" where
  "arrayIndex k =
     (case digitsVal k of
        None \<Rightarrow> None
      | Some n \<Rightarrow> if (k = ''0'' \<or> hd k \<noteq> CHR ''0'') \<and> n < 4294967295 then Some n else None)"

definition objectEntries :: "obj \<Rightarrow> (string \<times> total) list" where
  "objectEntries acc =
     sort_key (\<lambda>p. the (arrayIndex (fst p))) (filter (\<lambda>p. arrayIndex (fst p) \<noteq> None) acc)
     @ filter (\<lambda>p. arrayIndex (fst p) = None) acc"

text \<open>The comparator \<^verbatim>\<open>(a, b) => b[1] - a[1]\<close>.\<close>

definition byTotalDesc :: "string \<times> total \<Rightarrow> string \<times> total \<Rightarrow> rat option" where
  "byTotalDesc a b =
     (case (snd b, snd a) of (Num u, Num v) \<Rightarrow> Some (u - v) | _ \<Rightarrow> None)"

fun geqOpt :: "int option \<Rightarrow> int \<Rightarrow> bool" where
  "geqOpt None t = False"
| "geqOpt (Some u) t = (t \<le> u)"

fun lessOpt :: "int option \<Rightarrow> int \<Rightarrow> bool" where
  "lessOpt None t = False"
| "lessOpt (Some u) t = (u < t)"

text \<open>The body of \<^verbatim>\<open>updateInsights\<close> for a non-empty entry list: the messages it
  collects, given the balance of \<^verbatim>\<open>state.summary\<close>.\<close>

definition updateInsights_messages :: "env \<Rightarrow> rat \<Rightarrow> entry list \<Rightarrow> insight list" where
  "updateInsights_messages env bal entries =
     (let totalIn = sumAmounts (filter (\<lambda>e. entry_type e = ''cash_in'') entries);
          totalOut = sumAmounts (filter (\<lambda>e. entry_type e = ''cash_out'') entries);
          sevenDaysAgo = daysBefore env (now env) 7;
          fourteenDaysAgo = daysBefore env (now env) 14;
          spendLastWeek = sumAmounts (filter (\<lambda>e. entry_type e = ''cash_out''
              \<and> geqOpt (dateTime env (entry_date e)) sevenDaysAgo) entries);
          spendPrevWeek = sumAmounts (filter (\<lambda>e. entry_type e = ''cash_out''
              \<and> lessOpt (dateTime env (entry_date e)) sevenDaysAgo
              \<and> geqOpt (dateTime env (entry_date e)) fourteenDaysAgo) entries);
          spending = (if totalOut > 0 then [SpendingTotals (formatCurrency env (Num totalOut))] else []);
          inflows = (if totalIn > 0 then [CashInflows (formatCurrency env (Num totalIn))] else []);
          week =
            (if spendPrevWeek > 0 then
               (let diff = spendLastWeek - spendPrevWeek;
                    percentage = (diff / spendPrevWeek) * 100
                in if \<bar>percentage\<bar> \<ge> 10
                   then [WeekChange (toFixed env 1 \<bar>percentage\<bar>)
                           (if percentage > 0 then ''more'' else ''less'')]
                   else [])
             else if spendLastWeek > 0 then [NewSpending] else []);
          topNotes = foldl noteStep []
            (filter (\<lambda>e. entry_type e = ''cash_out'' \<and> truthy (entry_note e)) entries);
          sortedNotes = sortArray byTotalDesc (objectEntries topNotes);
          top = (case sortedNotes of
                   [] \<Rightarrow> []
                 | (note, amount) # _ \<Rightarrow> [TopSpendingNote note (formatCurrency env amount)]);
          negative = (if bal < 0 then [NegativeBalance] else []);
          insights = spending @ inflows @ week @ top @ negative
      in if insights = [] then [SteadyCashFlow] else insights)"

definition updateInsights :: "env \<Rightarrow> world \<Rightarrow> entry list \<Rightarrow> world" where
  "updateInsights env w entries =
     (case insights_list (page w) of
        None \<Rightarrow> w
      | Some _ \<Rightarrow>
          w\<lparr>page := (page w)\<lparr>insights_list :=
            Some (if length entries = 0 then [KeepLogging]
                  else updateInsights_messages env (balance (summary (st w))) entries)\<rparr>\<rparr>)"

section \<open>Renderer\<close>

definition entryRow :: "env \<Rightarrow> entry \<Rightarrow> row" where
  "entryRow env entry =
     EntryRow (entry_type entry) (entry_date entry)
       (if entry_type entry = ''cash_in'' then ''Cash In'' else ''Cash Out'')
       (formatCurrency env (Num (entry_amount entry)))
       (if truthy (entry_note entry) then entry_note entry else None)
       (entry_id entry)"

definition countLabel :: "nat \<Rightarrow> string" where
  "countLabel n = showNat n @ '' '' @ (if n = 1 then ''entry'' else ''entries'')"

text \<open>\<^verbatim>\<open>renderEntries(entries)\<close>, the argument being the address of the array.\<close>

definition renderEntries :: "env \<Rightarrow> world \<Rightarrow> addr \<Rightarrow> world" where
  "renderEntries env w entries =
     (case transaction_body (page w) of
        None \<Rightarrow> w
      | Some _ \<Rightarrow>
          if length (heap w ! entries) = 0 then
            updateInsights env
              (w\<lparr>page := (page w)\<lparr>
                 transaction_body := Some [EmptyState ''No transactions found. Add your first entry!''],
                 entry_count := map_option (\<lambda>_. ''0 entries'') (entry_count (page w))\<rparr>\<rparr>)
              []
          else
            (let (h1, copy) = slice (heap w) entries;
                 h2 = sortInPlace (byDateDesc env) h1 copy;
                 rows = map (entryRow env) (h2 ! copy)
             in updateInsights env
                  (w\<lparr>heap := h2,
                     page := (page w)\<lparr>
                       transaction_body := Some rows,
                       entry_count := map_option (\<lambda>_. countLabel (length (h2 ! entries)))
                                        (entry_count (page w))\<rparr>\<rparr>)
                  (h2 ! entries)))"

section \<open>Filter engine\<close>

definition inputValue :: "string option \<Rightarrow> string" where
  "inputValue el = (case el of None \<Rightarrow> [] | Some v \<Rightarrow> v)"

definition keywordMatch :: "env \<Rightarrow> string \<Rightarrow> entry \<Rightarrow> bool" where
  "keywordMatch env keyword entry =
     (includes_str (toLowerCase (case entry_note entry of None \<Rightarrow> [] | Some s \<Rightarrow> s)) keyword
      \<or> includes_str (numberToString env (entry_amount entry)) keyword)"

text \<open>The first part of \<^verbatim>\<open>applyFilters\<close>: the store after the array \<^verbatim>\<open>filtered\<close> is
  built, and its address.\<close>

definition applyFilters_filtered :: "env \<Rightarrow> world \<Rightarrow> store \<times> addr" where
  "applyFilters_filtered env w =
     (let keyword = toLowerCase (trim (inputValue (search_input (page w))));
          dateFilter = inputValue (date_filter (page w));
          (h1, f1) = alloc (heap w) (heap w ! allEntries (st w));
          (h2, f2) = (if keyword \<noteq> [] then filterArray (keywordMatch env keyword) h1 f1
                      else (h1, f1));
          (h3, f3) = (if dateFilter \<noteq> [] then filterArray (\<lambda>entry. entry_date entry = dateFilter) h2 f2
                      else (h2, f2))
      in (h3, f3))"

definition applyFilters :: "env \<Rightarrow> world \<Rightarrow> world" where
  "applyFilters env w =
     (let (h, filtered) = applyFilters_filtered env w
      in renderEntries env (w\<lparr>heap := h\<rparr>) filtered)"

section \<open>Export adapters\<close>

record pdf_document =
  pdf_texts :: "string list"
  pdf_head :: "string list list"
  pdf_body :: "string list list"
  pdf_totals :: "string list"
  pdf_file :: string

record workbook =
  sheet_name :: string
  sheet_data :: "string list list"
  sheet_file :: string

definition exportRows :: "env \<Rightarrow> entry list \<Rightarrow> string list list" where
  "exportRows env ts =
     map (\<lambda>(i, t).
            [showNat (i + 1),
             entry_date t,
             (if entry_type t = ''cash_in'' then ''Cash In'' else ''Cash Out''),
             toFixed env 2 (entry_amount t),
             (case entry_note t of None \<Rightarrow> ''-'' | Some s \<Rightarrow> if s = [] then ''-'' else s)])
         (enumerate 0 ts)"

definition exportPDFOnly :: "env \<Rightarrow> world \<Rightarrow> string \<Rightarrow> world \<times> pdf_document option" where
  "exportPDFOnly env w cashbook =
     (let entries = allEntries (st w) in
      if length (heap w ! entries) = 0 then (showToast w ''No data to export.'' ''info'', None)
      else
        (let (h1, copy) = slice (heap w) entries;
             h2 = sortInPlace (byDateDesc env) h1 copy;
             rows = exportRows env (h2 ! copy);
             totalIn = sumAmounts (filter (\<lambda>t. entry_type t = ''cash_in'') (h2 ! entries));
             totalOut = sumAmounts (filter (\<lambda>t. entry_type t = ''cash_out'') (h2 ! entries));
             bal = totalIn - totalOut;
             doc = \<lparr>pdf_texts = [''CashBook+ Transactions'', ''Cashbook: '' @ cashbook,
                                 ''Exported on: '' @ localeDateString env],
                    pdf_head = [[''#'', ''Date'', ''Type'', ''Amount'', ''Note'']],
                    pdf_body = rows,
                    pdf_totals = [''Total Cash In: '' @ toFixed env 2 totalIn,
                                  ''Total Cash Out: '' @ toFixed env 2 totalOut,
                                  ''Balance: '' @ toFixed env 2 bal],
                    pdf_file = cashbook @ ''-transactions.pdf''\<rparr>
         in (showToast (w\<lparr>heap := h2\<rparr>) ''PDF exported successfully!'' ''success'', Some doc)))"

definition exportExcelOnly :: "env \<Rightarrow> world \<Rightarrow> string \<Rightarrow> world \<times> workbook option" where
  "exportExcelOnly env w cashbook =
     (let entries = allEntries (st w) in
      if length (heap w ! entries) = 0 then (showToast w ''No data to export.'' ''info'', None)
      else
        (let (h1, copy) = slice (heap w) entries;
             h2 = sortInPlace (byDateDesc env) h1 copy;
             rows = exportRows env (h2 ! copy);
             totalIn = sumAmounts (filter (\<lambda>t. entry_type t = ''cash_in'') (h2 ! entries));
             totalOut = sumAmounts (filter (\<lambda>t. entry_type t = ''cash_out'') (h2 ! entries));
             bal = totalIn - totalOut;
             worksheetData =
               [[''#'', ''Date'', ''Type'', ''Amount'', ''Note'']] @ rows @
               [[],
                [[], [], ''Total Cash In'', toFixed env 2 totalIn],
                [[], [], ''Total Cash Out'', toFixed env 2 totalOut],
                [[], [], ''Balance'', toFixed env 2 bal]];
             book = \<lparr>sheet_name = ''Transactions'', sheet_data = worksheetData,
                     sheet_file = cashbook @ ''-transactions.xlsx''\<rparr>
         in (showToast (w\<lparr>heap := h2\<rparr>) ''Excel exported successfully!'' ''success'', Some book)))"

section \<open>Cashbook resolution\<close>

text \<open>\<^verbatim>\<open>getCashbookFromURL\<close>, given what \<^verbatim>\<open>params.get("cashbook")\<close> returns
  (\<open>None\<close> for \<^verbatim>\<open>null\<close>).\<close>

definition getCashbookFromURL :: "string option \<Rightarrow> string" where
  "getCashbookFromURL param = (case param of None \<Rightarrow> [] | Some v \<Rightarrow> v)"

text \<open>The selection in \<^verbatim>\<open>loadCashbooks\<close>, once the backend has returned the list
  \<open>cashbooks\<close>.\<close>

definition loadCashbooks_select :: "string list \<Rightarrow> string option \<Rightarrow> state \<Rightarrow> state" where
  "loadCashbooks_select cashbooks param s =
     (let urlCashbook = getCashbookFromURL param in
      if urlCashbook \<noteq> [] \<and> urlCashbook \<in> set cashbooks then s\<lparr>activeCashbook := urlCashbook\<rparr>
      else if length cashbooks > 0 \<and> activeCashbook s = [] then s\<lparr>activeCashbook := cashbooks ! 0\<rparr>
      else if length cashbooks = 0 then s\<lparr>activeCashbook := []\<rparr>
      else s)"

section \<open>Derived notions used in the statements\<close>

text \<open>The array \<^verbatim>\<open>filtered\<close> that \<^verbatim>\<open>applyFilters\<close> hands to the renderer, by content.\<close>

definition filteredEntries :: "env \<Rightarrow> world \<Rightarrow> entry list" where
  "filteredEntries env w = (case applyFilters_filtered env w of (h, f) \<Rightarrow> h ! f)"

fun isTopSpendingNote :: "insight \<Rightarrow> bool" where
  "isTopSpendingNote (TopSpendingNote _ _) = True"
| "isTopSpendingNote _ = False"

text \<open>The fourth rule of the insights generator on its own: what it adds to the messages.\<close>

definition topNoteInsight :: "env \<Rightarrow> entry list \<Rightarrow> insight list" where
  "topNoteInsight env entries =
     (case sortArray byTotalDesc (objectEntries (foldl noteStep []
              (filter (\<lambda>e. entry_type e = ''cash_out'' \<and> truthy (entry_note e)) entries))) of
        [] \<Rightarrow> []
      | (note, amount) # _ \<Rightarrow> [TopSpendingNote note (formatCurrency env amount)])"

text \<open>
  The resolution order as the specification words it: the cashbook of the URL if it is in
  the list, else the active cashbook if it is in the list, else the first of the list, else
  none. It is compared below with \<open>loadCashbooks_select\<close>, which is the code.
\<close>

definition resolve_spec :: "string list \<Rightarrow> string option \<Rightarrow> string \<Rightarrow> string" where
  "resolve_spec cashbooks param active =
     (case (case param of None \<Rightarrow> None | Some u \<Rightarrow> if u \<in> set cashbooks then Some u else None) of
        Some u \<Rightarrow> u
      | None \<Rightarrow>
          if active \<in> set cashbooks then active
          else (case cashbooks of [] \<Rightarrow> [] | c # _ \<Rightarrow> c))"

section \<open>Sample data\<close>

text \<open>A stand-in for the runtime library: numbers are printed by the digits of their
  whole part, no other date format is understood, and a day has 86400000 milliseconds.\<close>

definition showWhole :: "rat \<Rightarrow> string" where
  "showWhole r = (if r < 0 then ''-'' else []) @ showNat (nat \<lfloor>\<bar>r\<bar>\<rfloor>)"

definition sampleEnv :: env where
  "sampleEnv =
     \<lparr>currencyFormat = (\<lambda>v. case v of None \<Rightarrow> ''NaN'' | Some r \<Rightarrow> showWhole r),
      toFixed = (\<lambda>d r. showWhole r),
      numberToString = showWhole,
      dateParse = (\<lambda>s. None),
      now = 1717200000000,
      daysBefore = (\<lambda>t k. t - k * 86400000),
      localeDateString = ''6/1/2024''\<rparr>"

definition foodEntry :: entry where
  "foodEntry = \<lparr>entry_id = 1, entry_date = ''2024-05-30'', entry_type = ''cash_out'',
     entry_amount = 5, entry_note = Some ''Food''\<rparr>"

definition lunchEntry :: entry where
  "lunchEntry = \<lparr>entry_id = 4, entry_date = ''2024-05-31'', entry_type = ''cash_out'',
     entry_amount = 8, entry_note = Some ''Food''\<rparr>"

definition ctorEntry :: entry where
  "ctorEntry = \<lparr>entry_id = 2, entry_date = ''2024-05-30'', entry_type = ''cash_out'',
     entry_amount = 7, entry_note = Some ''constructor''\<rparr>"

definition protoEntry :: entry where
  "protoEntry = \<lparr>entry_id = 5, entry_date = ''2024-05-30'', entry_type = ''cash_out'',
     entry_amount = 9, entry_note = Some ''__proto__''\<rparr>"

definition salaryEntry :: entry where
  "salaryEntry = \<lparr>entry_id = 3, entry_date = ''2024-05-01'', entry_type = ''cash_in'',
     entry_amount = 500, entry_note = Some ''salary''\<rparr>"

definition janEntry :: entry where
  "janEntry = \<lparr>entry_id = 10, entry_date = ''2024-01-01'', entry_type = ''cash_out'',
     entry_amount = 20, entry_note = None\<rparr>"

definition febEntry :: entry where
  "febEntry = \<lparr>entry_id = 11, entry_date = ''2024-02-01'', entry_type = ''cash_in'',
     entry_amount = 30, entry_note = Some ''gift''\<rparr>"

definition marEntry :: entry where
  "marEntry = \<lparr>entry_id = 12, entry_date = ''2024-03-01'', entry_type = ''cash_out'',
     entry_amount = 40, entry_note = Some ''rent''\<rparr>"

definition samplePage :: dom where
  "samplePage = \<lparr>search_input = Some [], date_filter = Some [], transaction_body = Some [],
     entry_count = Some [], insights_list = Some [], toast_container = Some []\<rparr>"

definition sampleState :: state where
  "sampleState = \<lparr>username = ''asha'', activeCashbook = ''Personal'', allEntries = 0,
     summary = \<lparr>total_in = 500, total_out = 5, balance = 495\<rparr>\<rparr>"

definition staleState :: state where
  "staleState = sampleState\<lparr>activeCashbook := ''Old''\<rparr>"

definition sampleWorld :: world where
  "sampleWorld = \<lparr>st = sampleState, page = samplePage, heap = [[foodEntry, salaryEntry]]\<rparr>"

definition searchWorld :: world where
  "searchWorld = sampleWorld\<lparr>page := samplePage\<lparr>search_input := Some ''zzz''\<rparr>\<rparr>"

definition dateWorld :: world where
  "dateWorld = sampleWorld\<lparr>page := samplePage\<lparr>search_input := Some ''food'',
     date_filter := Some ''2030-01-01''\<rparr>\<rparr>"

definition datedWorld :: world where
  "datedWorld = \<lparr>st = sampleState, page = samplePage, heap = [[janEntry, marEntry, febEntry]]\<rparr>"

definition ledgerWorld :: world where
  "ledgerWorld = \<lparr>st = sampleState, page = samplePage,
     heap = [[janEntry, foodEntry, marEntry, salaryEntry, febEntry]]\<rparr>"

definition emptyWorld :: world where
  "emptyWorld = \<lparr>st = sampleState, page = samplePage, heap = [[]]\<rparr>"

section \<open>Strings: trimming and lower-casing\<close>

lemma isWhiteSpace_lowerChar: "isWhiteSpace (lowerChar c) = isWhiteSpace c"
  by (auto simp: isWhiteSpace_def lowerChar_def isUpper_def Let_def)

lemma lowerChar_idem: "lowerChar (lowerChar c) = lowerChar c"
  by (auto simp: lowerChar_def isUpper_def Let_def)

lemma toLowerCase_idem: "toLowerCase (toLowerCase s) = toLowerCase s"
  by (simp add: toLowerCase_def lowerChar_idem)

lemma dropWhile_ws_lower:
  "dropWhile isWhiteSpace (map lowerChar s) = map lowerChar (dropWhile isWhiteSpace s)"
  by (induction s) (simp_all add: isWhiteSpace_lowerChar)

lemma trim_toLowerCase: "trim (toLowerCase s) = toLowerCase (trim s)"
  by (simp only: trim_def toLowerCase_def dropWhile_ws_lower rev_map)

lemma dropWhile_keeps_trimmed:
  assumes "xs = [] \<or> \<not> P (hd xs)"
  shows "dropWhile P (rev (dropWhile P (rev xs))) = rev (dropWhile P (rev xs))"
proof (cases "rev (dropWhile P (rev xs))")
  case Nil
  show ?thesis unfolding Nil by simp
next
  case (Cons y ys)
  then have "dropWhile P (rev xs) = rev ys @ [y]"
    by (metis rev.simps(2) rev_rev_ident)
  moreover obtain zs where "rev xs = zs @ dropWhile P (rev xs)"
    by (metis takeWhile_dropWhile_id)
  ultimately have "xs = y # ys @ rev zs"
    by (metis append_Cons append_Nil rev.simps(2) rev_append rev_rev_ident rev_swap)
  with assms have "\<not> P y" by auto
  with Cons show ?thesis by simp
qed

lemma trim_idem: "trim (trim s) = trim s"
proof -
  let ?t = "dropWhile isWhiteSpace s"
  have h: "?t = [] \<or> \<not> isWhiteSpace (hd ?t)"
    by (metis hd_dropWhile)
  have "dropWhile isWhiteSpace (trim s) = trim s"
    unfolding trim_def
    using dropWhile_keeps_trimmed [of "dropWhile isWhiteSpace s" isWhiteSpace, OF h] .
  then show ?thesis
    by (simp add: trim_def)
qed

lemma trim_all_ws:
  assumes "\<forall>c\<in>set k. isWhiteSpace c"
  shows "trim k = []"
proof -
  have e: "dropWhile isWhiteSpace k = []" using assms by simp
  show ?thesis unfolding trim_def e by simp
qed

lemma keyword_normal: "toLowerCase (trim (toLowerCase (trim k))) = toLowerCase (trim k)"
  by (simp add: trim_toLowerCase trim_idem toLowerCase_idem)

section \<open>Sorting by date\<close>

lemma insertBy_insort_key:
  assumes "\<forall>y\<in>set ys. dateTime env (entry_date y) \<noteq> None"
    and "dateTime env (entry_date x) \<noteq> None"
  shows "insertBy (byDateDesc env) x ys
         = insort_key (\<lambda>e. - the (dateTime env (entry_date e))) x ys"
  using assms by (induction ys) (auto simp: byDateDesc_def)

text \<open>On entries whose dates are all valid the comparator is consistent, and the sort is
  the stable sort by descending time value.\<close>

lemma sortArray_sort_key:
  assumes "\<forall>y\<in>set xs. dateTime env (entry_date y) \<noteq> None"
  shows "sortArray (byDateDesc env) xs = sort_key (\<lambda>e. - the (dateTime env (entry_date e))) xs"
  using assms
proof (induction xs)
  case Nil
  then show ?case by (simp add: sortArray_def)
next
  case (Cons x xs)
  then have "sortArray (byDateDesc env) xs
             = sort_key (\<lambda>e. - the (dateTime env (entry_date e))) xs"
    by simp
  moreover have "\<forall>y\<in>set (sort_key (\<lambda>e. - the (dateTime env (entry_date e))) xs).
                   dateTime env (entry_date y) \<noteq> None"
    using Cons.prems by simp
  ultimately show ?case using Cons.prems
    by (simp add: sortArray_def insertBy_insort_key)
qed

lemma sortArray_byDateDesc_descending:
  assumes "\<forall>y\<in>set xs. dateTime env (entry_date y) \<noteq> None"
  shows "sorted (map (\<lambda>e. - the (dateTime env (entry_date e))) (sortArray (byDateDesc env) xs))
         \<and> mset (sortArray (byDateDesc env) xs) = mset xs"
  by (simp add: sortArray_sort_key [OF assms])

lemma sortArray_byDateDesc_sorted_wrt:
  assumes "\<forall>y\<in>set xs. dateTime env (entry_date y) \<noteq> None"
  shows "sorted_wrt (\<lambda>x y. the (dateTime env (entry_date y)) \<le> the (dateTime env (entry_date x)))
           (sortArray (byDateDesc env) xs)"
proof -
  have "sorted (map (\<lambda>e. - the (dateTime env (entry_date e))) (sortArray (byDateDesc env) xs))"
    using sortArray_byDateDesc_descending [OF assms] by simp
  then show ?thesis by (simp add: sorted_map)
qed

lemma iso_jan: "isoDate ''2024-01-01'' = Some 1704067200000"
  by (simp add: isoDate_def digitsVal_def digitVal_def daysInMonth_def isLeapYear_def
      daysFromCivil_def)

lemma iso_feb: "isoDate ''2024-02-01'' = Some 1706745600000"
  by (simp add: isoDate_def digitsVal_def digitVal_def daysInMonth_def isLeapYear_def
      daysFromCivil_def)

lemma iso_mar: "isoDate ''2024-03-01'' = Some 1709251200000"
  by (simp add: isoDate_def digitsVal_def digitVal_def daysInMonth_def isLeapYear_def
      daysFromCivil_def)

lemma sort_three:
  assumes "mset xs = {#e1, e2, e3#}"
    and "entry_date e1 = ''2024-01-01''" and "entry_date e2 = ''2024-03-01''"
    and "entry_date e3 = ''2024-02-01''"
  shows "sortArray (byDateDesc env) xs = [e2, e3, e1]"
proof -
  let ?f = "\<lambda>e. - the (dateTime env (entry_date e))"
  have t: "dateTime env (entry_date e1) = Some 1704067200000"
      "dateTime env (entry_date e2) = Some 1709251200000"
      "dateTime env (entry_date e3) = Some 1706745600000"
    using assms by (simp_all add: dateTime_def iso_jan iso_feb iso_mar)
  have "set xs = {e1, e2, e3}"
    using assms(1) by (metis set_mset_mset set_mset_add_mset_insert set_mset_empty)
  then have v: "\<forall>y\<in>set xs. dateTime env (entry_date y) \<noteq> None"
    using t by auto
  have "sort_key ?f xs = [e2, e3, e1]"
  proof (rule properties_for_sort_key)
    show "mset [e2, e3, e1] = mset xs" using assms(1) by simp
    show "sorted (map ?f [e2, e3, e1])" using t by simp
  next
    fix k assume "k \<in> set [e2, e3, e1]"
    then have k: "k = e1 \<or> k = e2 \<or> k = e3" by auto
    have "mset (filter (\<lambda>x. ?f k = ?f x) xs) = {#k#}"
      using k t assms(1) by (auto simp: mset_filter)
    then have "filter (\<lambda>x. ?f k = ?f x) xs = [k]"
      by (rule iffD1 [OF mset_single_iff])
    moreover have "filter (\<lambda>x. ?f k = ?f x) [e2, e3, e1] = [k]"
      using k t by auto
    ultimately show "filter (\<lambda>x. ?f k = ?f x) [e2, e3, e1] = filter (\<lambda>x. ?f k = ?f x) xs"
      by simp
  qed
  then show ?thesis using sortArray_sort_key [OF v] by simp
qed

lemma sample_times:
  "dateTime sampleEnv (entry_date janEntry) = Some 1704067200000"
  "dateTime sampleEnv (entry_date febEntry) = Some 1706745600000"
  "dateTime sampleEnv (entry_date marEntry) = Some 1709251200000"
  "dateTime sampleEnv (entry_date salaryEntry) = Some 1714521600000"
  "dateTime sampleEnv (entry_date foodEntry) = Some 1717027200000"
  by (simp_all add: dateTime_def isoDate_def digitsVal_def digitVal_def daysInMonth_def
      isLeapYear_def daysFromCivil_def janEntry_def febEntry_def marEntry_def salaryEntry_def
      foodEntry_def)

lemma sample_sorted:
  "sortArray (byDateDesc sampleEnv) [janEntry, foodEntry, marEntry, salaryEntry, febEntry]
   = [foodEntry, salaryEntry, marEntry, febEntry, janEntry]"
  by (simp add: sortArray_def byDateDesc_def sample_times)

lemma sample_dates:
  "map entry_date [foodEntry, salaryEntry, marEntry, febEntry, janEntry]
   = [''2024-05-30'', ''2024-05-01'', ''2024-03-01'', ''2024-02-01'', ''2024-01-01'']"
  by (simp add: foodEntry_def salaryEntry_def marEntry_def febEntry_def janEntry_def)

section \<open>Note totals\<close>

lemma sumAmounts_sum_list: "sumAmounts es = sum_list (map entry_amount es)"
proof -
  have "foldl (\<lambda>sum e. sum + entry_amount e) s es = s + sum_list (map entry_amount es)" for s
    by (induction es arbitrary: s) (simp_all add: add.assoc)
  then show ?thesis by (simp add: sumAmounts_def)
qed

lemma noteStep_same_key:
  assumes "entry_note e = Some n"
  shows "noteStep [(toLowerCase (trim n), Num s)] e
         = [(toLowerCase (trim n), Num (s + entry_amount e))]"
  using assms by (simp add: noteStep_def)

lemma foldl_noteStep_same_key:
  assumes "\<forall>e\<in>set es. entry_note e = Some n"
  shows "foldl noteStep [(toLowerCase (trim n), Num s)] es
         = [(toLowerCase (trim n), Num (s + sum_list (map entry_amount es)))]"
  using assms by (induction es arbitrary: s) (simp_all add: noteStep_same_key add.assoc)

lemma noteStep_first:
  assumes "entry_note e = Some n" and "toLowerCase (trim n) \<notin> set prototypeNames"
    and "toLowerCase (trim n) \<noteq> ''__proto__''"
  shows "noteStep [] e = [(toLowerCase (trim n), Num (entry_amount e))]"
  using assms by (simp add: noteStep_def)

lemma topNotes_one_note:
  assumes "es \<noteq> []" and "\<forall>e\<in>set es. entry_note e = Some n"
    and "toLowerCase (trim n) \<notin> set prototypeNames"
    and "toLowerCase (trim n) \<noteq> ''__proto__''"
  shows "foldl noteStep [] es = [(toLowerCase (trim n), Num (sum_list (map entry_amount es)))]"
proof (cases es)
  case Nil
  with assms show ?thesis by simp
next
  case (Cons e es')
  with assms have "noteStep [] e = [(toLowerCase (trim n), Num (entry_amount e))]"
    by (simp add: noteStep_first)
  moreover have "\<forall>e\<in>set es'. entry_note e = Some n" using assms Cons by simp
  ultimately show ?thesis using Cons by (simp add: foldl_noteStep_same_key)
qed

lemma objectEntries_single: "objectEntries [p] = [p]"
  by (simp add: objectEntries_def)

lemma sortArray_single: "sortArray cmp [p] = [p]"
  by (simp add: sortArray_def)

lemma filter_fallback: "\<not> P d \<Longrightarrow> filter P (if xs = [] then [d] else xs) = filter P xs"
  by simp

lemma filter_if: "filter P (if c then xs else ys) = (if c then filter P xs else filter P ys)"
  by simp

lemma topNoteInsight_filter:
  "filter isTopSpendingNote (topNoteInsight env entries) = topNoteInsight env entries"
  by (simp add: topNoteInsight_def split: list.splits prod.splits)

text \<open>The only messages of that kind are those of the fourth rule.\<close>

lemma top_message:
  "filter isTopSpendingNote (updateInsights_messages env bal entries) = topNoteInsight env entries"
proof -
  have "filter isTopSpendingNote (updateInsights_messages env bal entries)
        = filter isTopSpendingNote (topNoteInsight env entries)"
    unfolding updateInsights_messages_def Let_def topNoteInsight_def [symmetric]
    apply (subst filter_fallback)
     apply (simp only: isTopSpendingNote.simps not_False_eq_True)
    apply (simp only: filter_append filter_if filter.simps isTopSpendingNote.simps
          if_False if_cancel append_Nil append_Nil2)
    done
  then show ?thesis by (simp only: topNoteInsight_filter)
qed

section \<open>What each operation does to the page and to the store\<close>

lemma filteredEntries_eq:
  "filteredEntries env w =
    (let keyword = toLowerCase (trim (inputValue (search_input (page w))));
         dateFilter = inputValue (date_filter (page w));
         xs = heap w ! allEntries (st w);
         ys = (if keyword \<noteq> [] then filter (keywordMatch env keyword) xs else xs)
     in if dateFilter \<noteq> [] then filter (\<lambda>entry. entry_date entry = dateFilter) ys else ys)"
  by (simp add: filteredEntries_def applyFilters_filtered_def alloc_def filterArray_def Let_def
      nth_append)

lemma updateInsights_frame [simp]:
  "heap (updateInsights env w es) = heap w" "st (updateInsights env w es) = st w"
  by (simp_all add: updateInsights_def split: option.splits)

lemma updateInsights_list:
  "insights_list (page (updateInsights env w es)) =
     map_option (\<lambda>_. if es = [] then [KeepLogging]
                      else updateInsights_messages env (balance (summary (st w))) es)
       (insights_list (page w))"
  by (simp add: updateInsights_def split: option.splits)

lemma updateInsights_body [simp]:
  "transaction_body (page (updateInsights env w es)) = transaction_body (page w)"
  by (simp add: updateInsights_def split: option.splits)

lemma renderEntries_insights:
  assumes "transaction_body (page w) \<noteq> None" and "a < length (heap w)"
  shows "insights_list (page (renderEntries env w a)) =
         insights_list (page (updateInsights env w (heap w ! a)))"
  using assms
  by (auto simp: renderEntries_def updateInsights_list slice_def alloc_def sortInPlace_def
      nth_append Let_def split: option.splits)

lemma renderEntries_empty:
  assumes "transaction_body (page w) \<noteq> None" and "heap w ! a = []"
  shows "transaction_body (page (renderEntries env w a)) =
           Some [EmptyState ''No transactions found. Add your first entry!'']"
  using assms by (auto simp: renderEntries_def)

lemma renderEntries_rows:
  assumes "transaction_body (page w) \<noteq> None" and "heap w ! a \<noteq> []"
  shows "transaction_body (page (renderEntries env w a)) =
           Some (map (entryRow env) (sortArray (byDateDesc env) (heap w ! a)))"
  using assms by (auto simp: renderEntries_def slice_def alloc_def sortInPlace_def Let_def)

lemma applyFilters_filtered_addr:
  "snd (applyFilters_filtered env w) < length (fst (applyFilters_filtered env w))"
  by (simp add: applyFilters_filtered_def alloc_def filterArray_def Let_def)

lemma applyFilters_eq:
  "applyFilters env w =
     renderEntries env (w\<lparr>heap := fst (applyFilters_filtered env w)\<rparr>)
       (snd (applyFilters_filtered env w))"
  by (simp add: applyFilters_def split: prod.splits)

lemma applyFilters_filtered_keyword:
  assumes "toLowerCase (trim k) = toLowerCase (trim k')"
  shows "applyFilters_filtered env (w\<lparr>page := (page w)\<lparr>search_input := Some k\<rparr>\<rparr>)
       = applyFilters_filtered env (w\<lparr>page := (page w)\<lparr>search_input := Some k'\<rparr>\<rparr>)"
  using assms by (simp add: applyFilters_filtered_def inputValue_def)

lemma showToast_frame [simp]:
  "heap (showToast w m t) = heap w" "st (showToast w m t) = st w"
  by (simp_all add: showToast_def split: option.splits)

lemma renderEntries_st: "st (renderEntries env w a) = st w"
  by (simp add: renderEntries_def slice_def alloc_def Let_def split: option.splits)

text \<open>Every operation leaves the arrays that exist alone: the store only grows, and the
  in-place sort hits the copy made just before.\<close>

lemma renderEntries_heap: "\<exists>ys. heap (renderEntries env w a) = heap w @ ys"
  by (simp add: renderEntries_def slice_def alloc_def sortInPlace_def Let_def
      split: option.splits)

lemma applyFilters_filtered_heap: "\<exists>ys. fst (applyFilters_filtered env w) = heap w @ ys"
  by (simp add: applyFilters_filtered_def alloc_def filterArray_def Let_def)

lemma applyFilters_st: "st (applyFilters env w) = st w"
  by (simp add: applyFilters_eq renderEntries_st)

lemma applyFilters_heap: "\<exists>ys. heap (applyFilters env w) = heap w @ ys"
proof -
  obtain ys where a: "fst (applyFilters_filtered env w) = heap w @ ys"
    using applyFilters_filtered_heap by blast
  obtain zs where "heap (applyFilters env w) = (heap w @ ys) @ zs"
    using renderEntries_heap [of env "w\<lparr>heap := fst (applyFilters_filtered env w)\<rparr>"
        "snd (applyFilters_filtered env w)"] a
    by (auto simp: applyFilters_eq)
  then show ?thesis by simp
qed

lemma exportPDFOnly_st: "st (fst (exportPDFOnly env w c)) = st w"
  by (simp add: exportPDFOnly_def slice_def alloc_def Let_def)

lemma exportPDFOnly_heap: "\<exists>ys. heap (fst (exportPDFOnly env w c)) = heap w @ ys"
  by (simp add: exportPDFOnly_def slice_def alloc_def sortInPlace_def Let_def)

lemma exportExcelOnly_st: "st (fst (exportExcelOnly env w c)) = st w"
  by (simp add: exportExcelOnly_def slice_def alloc_def Let_def)

lemma exportExcelOnly_heap: "\<exists>ys. heap (fst (exportExcelOnly env w c)) = heap w @ ys"
  by (simp add: exportExcelOnly_def slice_def alloc_def sortInPlace_def Let_def)

lemma extended_heap_nth: "\<exists>ys. h' = h @ ys \<Longrightarrow> b < length h \<Longrightarrow> h' ! b = h ! b"
  by (auto simp: nth_append)

lemma loadCashbooks_select_active:
  "activeCashbook (loadCashbooks_select cashbooks param s) =
     (if getCashbookFromURL param \<noteq> [] \<and> getCashbookFromURL param \<in> set cashbooks
        then getCashbookFromURL param
      else if cashbooks = [] then []
      else if activeCashbook s \<noteq> [] then activeCashbook s
      else hd cashbooks)"
  by (cases cashbooks) (simp_all add: loadCashbooks_select_def Let_def)

section \<open>The claims\<close>

subsection \<open>C1: which entries the insights are computed from\<close>

text \<open>
  Claim C1, as the code has it. After \<^verbatim>\<open>applyFilters\<close>, on a page that has the table
  body, the insight messages shown are those the insights generator computes from the
  filtered array handed to the renderer (together with the balance of the stored
  summary), whatever the keyword and the date filter are. They are not computed from all
  of \<^verbatim>\<open>state.allEntries\<close>: the two differ as soon as the filters drop an entry that
  matters, as the counterexample after the theorem shows.
\<close>

theorem C1_insights_from_filtered:
  assumes "transaction_body (page w) \<noteq> None"
  shows "insights_list (page (applyFilters env w)) =
         insights_list (page (updateInsights env w (filteredEntries env w)))"
proof -
  have "insights_list (page (applyFilters env w)) =
        insights_list (page (updateInsights env (w\<lparr>heap := fst (applyFilters_filtered env w)\<rparr>)
                               (filteredEntries env w)))"
    using assms applyFilters_filtered_addr [of env w]
    by (simp add: applyFilters_eq renderEntries_insights filteredEntries_def split: prod.splits)
  then show ?thesis by (simp add: updateInsights_list)
qed

theorem C1_witness:
  "transaction_body (page searchWorld) \<noteq> None
   \<and> filteredEntries sampleEnv searchWorld = []
   \<and> insights_list (page (applyFilters sampleEnv searchWorld)) = Some [KeepLogging]"
proof -
  have h: "transaction_body (page searchWorld) \<noteq> None"
    by (simp add: searchWorld_def samplePage_def)
  have f: "filteredEntries sampleEnv searchWorld = []"
    by code_simp
  have i: "insights_list (page searchWorld) = Some []"
    by (simp add: searchWorld_def samplePage_def)
  show ?thesis
    using h f i C1_insights_from_filtered [OF h, of sampleEnv]
    by (simp add: updateInsights_list)
qed

text \<open>With one cash-out entry stored and a keyword that matches nothing, the page shows
  the message of the empty list, while the generator run on the stored entries reports
  the spending.\<close>

theorem C1_counterexample:
  "insights_list (page (applyFilters sampleEnv searchWorld)) \<noteq>
   insights_list (page (updateInsights sampleEnv searchWorld
                          (heap searchWorld ! allEntries (st searchWorld))))"
  by code_simp

subsection \<open>C2: the top spending note\<close>

text \<open>
  Claim C2, as the code has it. Let an entry list have at least one cash-out entry with a
  non-empty note, let all such entries carry the same note \<open>n\<close>, and let \<open>n\<close>, trimmed and
  lower-cased, not be the name of a property that a plain object inherits
  (\<^verbatim>\<open>constructor\<close>, \<^verbatim>\<open>__proto__\<close>). Then the insights generator emits exactly
  one top-spending-note message; it names \<open>n\<close> trimmed and lower-cased, not in its
  original casing, and its amount is the formatted sum of the amounts of those entries.
  The first half of the theorem is about the messages collected, the second about the list
  written to the page.
\<close>

theorem C2_top_spending_note:
  assumes "\<exists>e\<in>set entries. entry_type e = ''cash_out'' \<and> truthy (entry_note e)"
    and "\<forall>e\<in>set entries. entry_type e = ''cash_out'' \<and> truthy (entry_note e)
           \<longrightarrow> entry_note e = Some n"
    and "toLowerCase (trim n) \<notin> set prototypeNames"
    and "toLowerCase (trim n) \<noteq> ''__proto__''"
  shows "filter isTopSpendingNote (updateInsights_messages env bal entries) =
     [TopSpendingNote (toLowerCase (trim n))
        (formatCurrency env (Num (sum_list (map entry_amount
           (filter (\<lambda>e. entry_type e = ''cash_out'' \<and> truthy (entry_note e)) entries)))))]
   \<and> map_option (filter isTopSpendingNote) (insights_list (page (updateInsights env w entries))) =
     map_option (\<lambda>_. [TopSpendingNote (toLowerCase (trim n))
        (formatCurrency env (Num (sum_list (map entry_amount
           (filter (\<lambda>e. entry_type e = ''cash_out'' \<and> truthy (entry_note e)) entries)))))])
       (insights_list (page w))"
proof -
  let ?es = "filter (\<lambda>e. entry_type e = ''cash_out'' \<and> truthy (entry_note e)) entries"
  have ne: "entries \<noteq> []" using assms(1) by auto
  have "?es \<noteq> []" using assms(1) by (auto simp: filter_empty_conv)
  moreover have "\<forall>e\<in>set ?es. entry_note e = Some n" using assms(2) by simp
  ultimately have "foldl noteStep [] ?es
      = [(toLowerCase (trim n), Num (sum_list (map entry_amount ?es)))]"
    using assms(3,4) by (rule topNotes_one_note)
  then have m: "filter isTopSpendingNote (updateInsights_messages env b entries) =
     [TopSpendingNote (toLowerCase (trim n)) (formatCurrency env (Num (sum_list (map entry_amount ?es))))]"
    for b
    by (simp add: top_message topNoteInsight_def objectEntries_single sortArray_single)
  show ?thesis
    using ne m by (simp add: updateInsights_list option.map_comp comp_def)
qed

theorem C2_witness:
  "map entry_note
     (filter (\<lambda>e. entry_type e = ''cash_out'' \<and> truthy (entry_note e))
        [foodEntry, salaryEntry, lunchEntry]) = [Some ''Food'', Some ''Food'']
   \<and> toLowerCase (trim ''Food'') = ''food''
   \<and> ''food'' \<notin> set prototypeNames
   \<and> ''food'' \<noteq> ''__proto__''
   \<and> filter isTopSpendingNote
        (updateInsights_messages sampleEnv 495 [foodEntry, salaryEntry, lunchEntry])
       = [TopSpendingNote ''food'' (formatCurrency sampleEnv (Num 13))]"
proof -
  have h1: "\<exists>e\<in>set [foodEntry, salaryEntry, lunchEntry].
             entry_type e = ''cash_out'' \<and> truthy (entry_note e)"
    by code_simp
  have h2: "\<forall>e\<in>set [foodEntry, salaryEntry, lunchEntry].
         entry_type e = ''cash_out'' \<and> truthy (entry_note e) \<longrightarrow> entry_note e = Some ''Food''"
    by code_simp
  have h3: "toLowerCase (trim ''Food'') \<notin> set prototypeNames"
    by code_simp
  have h4: "toLowerCase (trim ''Food'') \<noteq> ''__proto__''"
    by code_simp
  have l: "toLowerCase (trim ''Food'') = ''food''"
    by code_simp
  have s: "sum_list (map entry_amount
             (filter (\<lambda>e. entry_type e = ''cash_out'' \<and> truthy (entry_note e))
                [foodEntry, salaryEntry, lunchEntry])) = 13"
    by code_simp
  have n: "map entry_note
     (filter (\<lambda>e. entry_type e = ''cash_out'' \<and> truthy (entry_note e))
        [foodEntry, salaryEntry, lunchEntry]) = [Some ''Food'', Some ''Food'']"
    by code_simp
  have "filter isTopSpendingNote
          (updateInsights_messages sampleEnv 495 [foodEntry, salaryEntry, lunchEntry])
        = [TopSpendingNote ''food'' (formatCurrency sampleEnv (Num 13))]"
    using C2_top_spending_note [OF h1 h2 h3 h4, of sampleEnv 495 sampleWorld, THEN conjunct1]
    unfolding l s .
  with n l h3 h4 show ?thesis unfolding l by blast
qed

text \<open>The note \<^verbatim>\<open>Food\<close> is reported as \<^verbatim>\<open>food\<close>. The note
  \<^verbatim>\<open>constructor\<close> is reported with an amount that is not a number, not with the sum
  of the amounts, and the note \<^verbatim>\<open>__proto__\<close> is not reported at all; nor is there
  a message when no cash-out entry has a note.\<close>

theorem C2_counterexample:
  "entry_note foodEntry = Some ''Food''
   \<and> filter isTopSpendingNote (updateInsights_messages sampleEnv 0 [foodEntry])
       = [TopSpendingNote ''food'' ''5'']
   \<and> TopSpendingNote ''Food'' (formatCurrency sampleEnv (Num 5))
       \<notin> set (updateInsights_messages sampleEnv 0 [foodEntry])
   \<and> entry_note ctorEntry = Some ''constructor''
   \<and> formatCurrency sampleEnv (Num 7) = ''7''
   \<and> filter isTopSpendingNote (updateInsights_messages sampleEnv 0 [ctorEntry])
       = [TopSpendingNote ''constructor'' ''NaN'']
   \<and> filter isTopSpendingNote (updateInsights_messages sampleEnv 0 [protoEntry]) = []
   \<and> filter isTopSpendingNote (updateInsights_messages sampleEnv 0 [salaryEntry]) = []"
  by code_simp

subsection \<open>C3: cashbook resolution\<close>

text \<open>
  Claim C3, as the code has it. Given the list of cashbooks returned by the backend, the
  \<^verbatim>\<open>cashbook\<close> parameter of the URL and the active cashbook set before, the resolver
  selects in this order: the cashbook of the URL if it is non-empty and in the list; else
  none (the empty name) if the list is empty; else the active cashbook set before if there
  is one, kept whether or not it is in the list; else the first cashbook of the list. This
  is the order of the specification whenever no cashbook has the empty name and the
  active cashbook is unset or still in the list. In particular the list
  \<^verbatim>\<open>["Personal", "Work"]\<close> with \<^verbatim>\<open>cashbook=Work\<close> resolves to \<^verbatim>\<open>Work\<close>.
\<close>

theorem C3_resolution_order:
  "activeCashbook (loadCashbooks_select cashbooks param s) =
     (if getCashbookFromURL param \<noteq> [] \<and> getCashbookFromURL param \<in> set cashbooks
        then getCashbookFromURL param
      else if cashbooks = [] then []
      else if activeCashbook s \<noteq> [] then activeCashbook s
      else hd cashbooks)
   \<and> ([] \<notin> set cashbooks \<and> (activeCashbook s = [] \<or> activeCashbook s \<in> set cashbooks)
        \<longrightarrow> activeCashbook (loadCashbooks_select cashbooks param s)
            = resolve_spec cashbooks param (activeCashbook s))
   \<and> activeCashbook (loadCashbooks_select [''Personal'', ''Work''] (Some ''Work'') s) = ''Work''"
proof (intro conjI impI)
  show "activeCashbook (loadCashbooks_select cashbooks param s) =
     (if getCashbookFromURL param \<noteq> [] \<and> getCashbookFromURL param \<in> set cashbooks
        then getCashbookFromURL param
      else if cashbooks = [] then []
      else if activeCashbook s \<noteq> [] then activeCashbook s
      else hd cashbooks)"
    by (rule loadCashbooks_select_active)
next
  assume a: "[] \<notin> set cashbooks \<and> (activeCashbook s = [] \<or> activeCashbook s \<in> set cashbooks)"
  show "activeCashbook (loadCashbooks_select cashbooks param s)
        = resolve_spec cashbooks param (activeCashbook s)"
  proof (cases param)
    case None
    with a show ?thesis
      by (cases cashbooks)
        (auto simp: loadCashbooks_select_active resolve_spec_def getCashbookFromURL_def)
  next
    case (Some u)
    with a show ?thesis
      by (cases cashbooks)
        (auto simp: loadCashbooks_select_active resolve_spec_def getCashbookFromURL_def)
  qed
next
  show "activeCashbook (loadCashbooks_select [''Personal'', ''Work''] (Some ''Work'') s) = ''Work''"
    by (simp add: loadCashbooks_select_active getCashbookFromURL_def)
qed

theorem C3_witness:
  "[] \<notin> set [''Personal'', ''Work'']
   \<and> activeCashbook (sampleState\<lparr>activeCashbook := []\<rparr>) = []
   \<and> activeCashbook (loadCashbooks_select [''Personal'', ''Work''] None
        (sampleState\<lparr>activeCashbook := []\<rparr>))
       = resolve_spec [''Personal'', ''Work''] None
           (activeCashbook (sampleState\<lparr>activeCashbook := []\<rparr>))
   \<and> resolve_spec [''Personal'', ''Work''] None [] = ''Personal''
   \<and> activeCashbook (loadCashbooks_select [''Personal'', ''Work''] (Some ''Work'')
        (sampleState\<lparr>activeCashbook := []\<rparr>)) = ''Work''"
  using C3_resolution_order [of "[''Personal'', ''Work'']" None
      "sampleState\<lparr>activeCashbook := []\<rparr>"]
  by (simp add: resolve_spec_def getCashbookFromURL_def)

text \<open>An active cashbook that is no longer in the list is kept, where the order of the
  specification falls through to the first cashbook of the list.\<close>

theorem C3_counterexample:
  "activeCashbook (loadCashbooks_select [''Personal'', ''Work''] None staleState) = ''Old''
   \<and> resolve_spec [''Personal'', ''Work''] None (activeCashbook staleState) = ''Personal''"
  by (simp add: loadCashbooks_select_def getCashbookFromURL_def resolve_spec_def staleState_def
      sampleState_def)

subsection \<open>C4: cleared filters\<close>

text \<open>
  Claim C4. If the keyword input and the date input are both empty (or absent), the
  filtered array holds the same entries in the same order as \<^verbatim>\<open>state.allEntries\<close>.
\<close>

theorem C4_cleared_filters_identity:
  assumes "inputValue (search_input (page w)) = []"
    and "inputValue (date_filter (page w)) = []"
  shows "filteredEntries env w = heap w ! allEntries (st w)"
  using assms by (simp add: filteredEntries_eq trim_def toLowerCase_def)

theorem C4_witness:
  "inputValue (search_input (page sampleWorld)) = []
   \<and> inputValue (date_filter (page sampleWorld)) = []
   \<and> filteredEntries sampleEnv sampleWorld = [foodEntry, salaryEntry]"
proof -
  have h: "inputValue (search_input (page sampleWorld)) = []"
    "inputValue (date_filter (page sampleWorld)) = []"
    by (simp_all add: sampleWorld_def samplePage_def inputValue_def)
  have "heap sampleWorld ! allEntries (st sampleWorld) = [foodEntry, salaryEntry]"
    by (simp add: sampleWorld_def sampleState_def)
  with h C4_cleared_filters_identity [OF h, of sampleEnv] show ?thesis by simp
qed

subsection \<open>C5: a date that matches no entry\<close>

text \<open>
  Claim C5. If the date input holds a non-empty date that is the date of no stored entry,
  then for every keyword the filtered array is empty, and the renderer, on a page that has
  the table body, shows the single "no transactions" row.
\<close>

theorem C5_unmatched_date_empty:
  assumes "inputValue (date_filter (page w)) = d" and "d \<noteq> []"
    and "\<forall>e\<in>set (heap w ! allEntries (st w)). entry_date e \<noteq> d"
  shows "filteredEntries env w = []
    \<and> (transaction_body (page w) \<noteq> None \<longrightarrow>
         transaction_body (page (applyFilters env w)) =
           Some [EmptyState ''No transactions found. Add your first entry!''])"
proof -
  have f: "filteredEntries env w = []"
    using assms by (auto simp: filteredEntries_eq Let_def filter_empty_conv)
  have "transaction_body (page (applyFilters env w)) =
           Some [EmptyState ''No transactions found. Add your first entry!'']"
    if "transaction_body (page w) \<noteq> None"
    using that f
    by (simp add: applyFilters_eq renderEntries_empty filteredEntries_def split: prod.splits)
  with f show ?thesis by simp
qed

theorem C5_witness:
  "inputValue (date_filter (page dateWorld)) = ''2030-01-01'' \<and> ''2030-01-01'' \<noteq> []
   \<and> ''2030-01-01'' \<notin> set (map entry_date (heap dateWorld ! allEntries (st dateWorld)))
   \<and> transaction_body (page dateWorld) \<noteq> None
   \<and> filteredEntries sampleEnv dateWorld = []
   \<and> transaction_body (page (applyFilters sampleEnv dateWorld)) =
           Some [EmptyState ''No transactions found. Add your first entry!'']"
proof -
  have h: "inputValue (date_filter (page dateWorld)) = ''2030-01-01''" "''2030-01-01'' \<noteq> []"
    "\<forall>e\<in>set (heap dateWorld ! allEntries (st dateWorld)). entry_date e \<noteq> ''2030-01-01''"
    "transaction_body (page dateWorld) \<noteq> None"
    by (simp_all add: dateWorld_def sampleWorld_def samplePage_def sampleState_def inputValue_def
        foodEntry_def salaryEntry_def)
  have m: "''2030-01-01'' \<notin> set (map entry_date (heap dateWorld ! allEntries (st dateWorld)))"
    using h(3) by auto
  show ?thesis using h(1,2,4) m C5_unmatched_date_empty [OF h(1,2,3), of sampleEnv] by simp
qed

subsection \<open>C6: exporting nothing\<close>

text \<open>
  Claim C6. If the stored entry list is empty, each export adapter does nothing but call
  the notification with the text "No data to export." of kind "info", and builds no
  document; on a page that has the notification container the notice is appended to it.
\<close>

theorem C6_empty_export_guard:
  assumes "heap w ! allEntries (st w) = []"
  shows "exportPDFOnly env w cashbook = (showToast w ''No data to export.'' ''info'', None)
    \<and> exportExcelOnly env w cashbook = (showToast w ''No data to export.'' ''info'', None)
    \<and> (\<forall>ts. toast_container (page w) = Some ts \<longrightarrow>
          toast_container (page (showToast w ''No data to export.'' ''info''))
            = Some (ts @ [(''No data to export.'', ''info'')]))"
  using assms by (simp add: exportPDFOnly_def exportExcelOnly_def showToast_def)

theorem C6_witness:
  "heap emptyWorld ! allEntries (st emptyWorld) = []
   \<and> snd (exportPDFOnly sampleEnv emptyWorld ''Personal'') = None
   \<and> snd (exportExcelOnly sampleEnv emptyWorld ''Personal'') = None
   \<and> toast_container (page (fst (exportPDFOnly sampleEnv emptyWorld ''Personal'')))
        = Some [(''No data to export.'', ''info'')]
   \<and> toast_container (page (fst (exportExcelOnly sampleEnv emptyWorld ''Personal'')))
        = Some [(''No data to export.'', ''info'')]"
proof -
  have h: "heap emptyWorld ! allEntries (st emptyWorld) = []"
    by (simp add: emptyWorld_def sampleState_def)
  have t: "toast_container (page emptyWorld) = Some []"
    by (simp add: emptyWorld_def samplePage_def)
  show ?thesis
    using h t C6_empty_export_guard [OF h, of sampleEnv "''Personal''"] by simp
qed

subsection \<open>C7: rows in descending order of date\<close>

text \<open>
  Claim C7. The renderer sorts the entry list descending by date before it makes the rows:
  on a page that has the table body, for every non-empty array of validly dated entries,
  the rows are those of a rearrangement of the entries in which no entry comes before one
  of a later date. In particular, for three entries dated 2024-01-01, 2024-03-01 and
  2024-02-01, in whatever order the array holds them, the rows are dated 2024-03-01,
  2024-02-01, 2024-01-01 in that order.
\<close>

theorem C7_rows_by_date_descending:
  assumes "transaction_body (page w) \<noteq> None"
  shows "(heap w ! a \<noteq> [] \<and> (\<forall>e\<in>set (heap w ! a). dateTime env (entry_date e) \<noteq> None) \<longrightarrow>
            (\<exists>es. mset es = mset (heap w ! a)
               \<and> sorted_wrt (\<lambda>x y. the (dateTime env (entry_date y))
                                     \<le> the (dateTime env (entry_date x))) es
               \<and> transaction_body (page (renderEntries env w a)) = Some (map (entryRow env) es)))
    \<and> (mset (heap w ! a) = {#e1, e2, e3#} \<and> entry_date e1 = ''2024-01-01''
          \<and> entry_date e2 = ''2024-03-01'' \<and> entry_date e3 = ''2024-02-01'' \<longrightarrow>
        map_option (map row_date) (transaction_body (page (renderEntries env w a)))
          = Some [''2024-03-01'', ''2024-02-01'', ''2024-01-01''])"
proof (intro conjI impI)
  assume g: "heap w ! a \<noteq> [] \<and> (\<forall>e\<in>set (heap w ! a). dateTime env (entry_date e) \<noteq> None)"
  let ?es = "sortArray (byDateDesc env) (heap w ! a)"
  have "mset ?es = mset (heap w ! a)"
    using g sortArray_byDateDesc_descending [of "heap w ! a" env] by simp
  moreover have "sorted_wrt (\<lambda>x y. the (dateTime env (entry_date y))
                                     \<le> the (dateTime env (entry_date x))) ?es"
    using g by (simp add: sortArray_byDateDesc_sorted_wrt)
  moreover have "transaction_body (page (renderEntries env w a)) = Some (map (entryRow env) ?es)"
    using assms g by (simp add: renderEntries_rows)
  ultimately show "\<exists>es. mset es = mset (heap w ! a)
               \<and> sorted_wrt (\<lambda>x y. the (dateTime env (entry_date y))
                                     \<le> the (dateTime env (entry_date x))) es
               \<and> transaction_body (page (renderEntries env w a)) = Some (map (entryRow env) es)"
    by blast
next
  assume t: "mset (heap w ! a) = {#e1, e2, e3#} \<and> entry_date e1 = ''2024-01-01''
          \<and> entry_date e2 = ''2024-03-01'' \<and> entry_date e3 = ''2024-02-01''"
  then have "heap w ! a \<noteq> []" by auto
  then have "transaction_body (page (renderEntries env w a)) =
           Some (map (entryRow env) (sortArray (byDateDesc env) (heap w ! a)))"
    using assms by (rule renderEntries_rows [rotated])
  moreover have "sortArray (byDateDesc env) (heap w ! a) = [e2, e3, e1]"
    using t by (intro sort_three) simp_all
  ultimately show "map_option (map row_date) (transaction_body (page (renderEntries env w a)))
          = Some [''2024-03-01'', ''2024-02-01'', ''2024-01-01'']"
    using t by (simp add: entryRow_def)
qed

theorem C7_witness:
  "transaction_body (page datedWorld) \<noteq> None
   \<and> mset (heap datedWorld ! 0) = {#janEntry, marEntry, febEntry#}
   \<and> entry_date janEntry = ''2024-01-01'' \<and> entry_date marEntry = ''2024-03-01''
   \<and> entry_date febEntry = ''2024-02-01''
   \<and> map_option (map row_date) (transaction_body (page (renderEntries sampleEnv datedWorld 0)))
         = Some [''2024-03-01'', ''2024-02-01'', ''2024-01-01'']
   \<and> transaction_body (page ledgerWorld) \<noteq> None
   \<and> heap ledgerWorld ! 0 = [janEntry, foodEntry, marEntry, salaryEntry, febEntry]
   \<and> list_all (\<lambda>e. dateTime sampleEnv (entry_date e) \<noteq> None) (heap ledgerWorld ! 0)
   \<and> (\<exists>es. mset es = mset (heap ledgerWorld ! 0)
         \<and> sorted_wrt (\<lambda>x y. the (dateTime sampleEnv (entry_date y))
                               \<le> the (dateTime sampleEnv (entry_date x))) es
         \<and> transaction_body (page (renderEntries sampleEnv ledgerWorld 0))
             = Some (map (entryRow sampleEnv) es))
   \<and> map_option (map row_date) (transaction_body (page (renderEntries sampleEnv ledgerWorld 0)))
         = Some [''2024-05-30'', ''2024-05-01'', ''2024-03-01'', ''2024-02-01'', ''2024-01-01'']"
proof -
  have b: "transaction_body (page datedWorld) \<noteq> None"
    by (simp add: datedWorld_def samplePage_def)
  have h: "mset (heap datedWorld ! 0) = {#janEntry, marEntry, febEntry#}"
    "entry_date janEntry = ''2024-01-01''" "entry_date marEntry = ''2024-03-01''"
    "entry_date febEntry = ''2024-02-01''"
    by (simp_all add: datedWorld_def janEntry_def febEntry_def marEntry_def)
  have three: "map_option (map row_date)
                 (transaction_body (page (renderEntries sampleEnv datedWorld 0)))
               = Some [''2024-03-01'', ''2024-02-01'', ''2024-01-01'']"
    using C7_rows_by_date_descending [OF b, of 0 sampleEnv janEntry marEntry febEntry, THEN conjunct2]
      h by blast
  have b': "transaction_body (page ledgerWorld) \<noteq> None"
    by (simp add: ledgerWorld_def samplePage_def)
  have c: "heap ledgerWorld ! 0 = [janEntry, foodEntry, marEntry, salaryEntry, febEntry]"
    by (simp add: ledgerWorld_def)
  have v: "list_all (\<lambda>e. dateTime sampleEnv (entry_date e) \<noteq> None) (heap ledgerWorld ! 0)"
    unfolding c by (simp add: sample_times)
  have ne: "heap ledgerWorld ! 0 \<noteq> []"
    using c by simp
  have five: "\<exists>es. mset es = mset (heap ledgerWorld ! 0)
         \<and> sorted_wrt (\<lambda>x y. the (dateTime sampleEnv (entry_date y))
                               \<le> the (dateTime sampleEnv (entry_date x))) es
         \<and> transaction_body (page (renderEntries sampleEnv ledgerWorld 0))
             = Some (map (entryRow sampleEnv) es)"
    using C7_rows_by_date_descending [OF b', of 0 sampleEnv, THEN conjunct1]
      ne v [unfolded list_all_iff] by blast
  have "transaction_body (page (renderEntries sampleEnv ledgerWorld 0))
        = Some (map (entryRow sampleEnv) [foodEntry, salaryEntry, marEntry, febEntry, janEntry])"
    using renderEntries_rows [OF b', of 0 sampleEnv] c sample_sorted by simp
  then have dates: "map_option (map row_date)
                 (transaction_body (page (renderEntries sampleEnv ledgerWorld 0)))
         = Some [''2024-05-30'', ''2024-05-01'', ''2024-03-01'', ''2024-02-01'', ''2024-01-01'']"
    using sample_dates by (simp add: entryRow_def comp_def)
  from b h three b' c v five dates show ?thesis by blast
qed

subsection \<open>C8: no entries\<close>

text \<open>
  Claim C8. For the empty entry list the insights generator writes exactly one message,
  the "keep logging" fallback, and nothing else (on a page without the insights list it
  writes nothing at all).
\<close>

theorem C8_empty_list_fallback:
  "insights_list (page (updateInsights env w []))
   = map_option (\<lambda>_. [KeepLogging]) (insights_list (page w))"
  by (simp add: updateInsights_list)

theorem C8_witness:
  "insights_list (page (updateInsights sampleEnv sampleWorld [])) = Some [KeepLogging]"
  using C8_empty_list_fallback [of sampleEnv sampleWorld]
  by (simp add: sampleWorld_def samplePage_def)

subsection \<open>C9: the stored entry list is never mutated\<close>

text \<open>
  Claim C9. After \<^verbatim>\<open>applyFilters\<close>, \<^verbatim>\<open>renderEntries\<close> (on any array),
  \<^verbatim>\<open>exportPDFOnly\<close> or \<^verbatim>\<open>exportExcelOnly\<close>, \<^verbatim>\<open>state.allEntries\<close> is the
  same array and holds the same entries in the same order as before.
\<close>

theorem C9_stored_entries_unchanged:
  assumes "allEntries (st w) < length (heap w)"
  shows "(allEntries (st (applyFilters env w)) = allEntries (st w)
          \<and> heap (applyFilters env w) ! allEntries (st w) = heap w ! allEntries (st w))
    \<and> (allEntries (st (renderEntries env w a)) = allEntries (st w)
          \<and> heap (renderEntries env w a) ! allEntries (st w) = heap w ! allEntries (st w))
    \<and> (allEntries (st (fst (exportPDFOnly env w c))) = allEntries (st w)
          \<and> heap (fst (exportPDFOnly env w c)) ! allEntries (st w) = heap w ! allEntries (st w))
    \<and> (allEntries (st (fst (exportExcelOnly env w c))) = allEntries (st w)
          \<and> heap (fst (exportExcelOnly env w c)) ! allEntries (st w)
              = heap w ! allEntries (st w))"
  using assms
    extended_heap_nth [OF applyFilters_heap [of env w] assms]
    extended_heap_nth [OF renderEntries_heap [of env w a] assms]
    extended_heap_nth [OF exportPDFOnly_heap [of env w c] assms]
    extended_heap_nth [OF exportExcelOnly_heap [of env w c] assms]
  by (simp add: applyFilters_st renderEntries_st exportPDFOnly_st exportExcelOnly_st)

theorem C9_witness:
  "allEntries (st datedWorld) < length (heap datedWorld)
   \<and> heap (applyFilters sampleEnv datedWorld) ! allEntries (st datedWorld)
       = [janEntry, marEntry, febEntry]
   \<and> heap (renderEntries sampleEnv datedWorld 0) ! allEntries (st datedWorld)
       = [janEntry, marEntry, febEntry]
   \<and> heap (fst (exportPDFOnly sampleEnv datedWorld ''Personal'')) ! allEntries (st datedWorld)
       = [janEntry, marEntry, febEntry]
   \<and> heap (fst (exportExcelOnly sampleEnv datedWorld ''Personal'')) ! allEntries (st datedWorld)
       = [janEntry, marEntry, febEntry]"
proof -
  have h: "allEntries (st datedWorld) < length (heap datedWorld)"
    by (simp add: datedWorld_def sampleState_def)
  have e: "heap datedWorld ! allEntries (st datedWorld) = [janEntry, marEntry, febEntry]"
    by (simp add: datedWorld_def sampleState_def)
  show ?thesis
    using h e C9_stored_entries_unchanged [OF h, of sampleEnv 0 "''Personal''"] by simp
qed

subsection \<open>C10: the keyword is trimmed\<close>

text \<open>
  Claim C10. A keyword made of white space only filters exactly as the empty keyword does
  (no entry is dropped for the keyword), and any keyword filters exactly as its trimmed,
  lower-cased form does.
\<close>

theorem C10_keyword_trimmed:
  "((\<forall>c\<in>set k. isWhiteSpace c) \<longrightarrow>
      applyFilters_filtered env (w\<lparr>page := (page w)\<lparr>search_input := Some k\<rparr>\<rparr>)
      = applyFilters_filtered env (w\<lparr>page := (page w)\<lparr>search_input := Some []\<rparr>\<rparr>))
   \<and> applyFilters_filtered env (w\<lparr>page := (page w)\<lparr>search_input := Some k\<rparr>\<rparr>)
      = applyFilters_filtered env
          (w\<lparr>page := (page w)\<lparr>search_input := Some (toLowerCase (trim k))\<rparr>\<rparr>)"
proof (intro conjI impI)
  assume "\<forall>c\<in>set k. isWhiteSpace c"
  then have "toLowerCase (trim k) = toLowerCase (trim [])"
    by (simp add: trim_all_ws)
  then show "applyFilters_filtered env (w\<lparr>page := (page w)\<lparr>search_input := Some k\<rparr>\<rparr>)
      = applyFilters_filtered env (w\<lparr>page := (page w)\<lparr>search_input := Some []\<rparr>\<rparr>)"
    by (rule applyFilters_filtered_keyword)
next
  have "toLowerCase (trim k) = toLowerCase (trim (toLowerCase (trim k)))"
    by (simp add: keyword_normal)
  then show "applyFilters_filtered env (w\<lparr>page := (page w)\<lparr>search_input := Some k\<rparr>\<rparr>)
      = applyFilters_filtered env
          (w\<lparr>page := (page w)\<lparr>search_input := Some (toLowerCase (trim k))\<rparr>\<rparr>)"
    by (rule applyFilters_filtered_keyword)
qed

theorem C10_witness:
  "list_all isWhiteSpace ''  ''
   \<and> filteredEntries sampleEnv (sampleWorld\<lparr>page := (page sampleWorld)\<lparr>search_input := Some ''  ''\<rparr>\<rparr>)
       = [foodEntry, salaryEntry]
   \<and> toLowerCase (trim '' FOOD  '') = ''food''
   \<and> filteredEntries sampleEnv
        (sampleWorld\<lparr>page := (page sampleWorld)\<lparr>search_input := Some '' FOOD  ''\<rparr>\<rparr>)
       = [foodEntry]"
proof -
  have h: "\<forall>c\<in>set ''  ''. isWhiteSpace c"
    by (simp add: isWhiteSpace_def)
  have l: "toLowerCase (trim '' FOOD  '') = ''food''"
    by code_simp
  have a: "filteredEntries sampleEnv
             (sampleWorld\<lparr>page := (page sampleWorld)\<lparr>search_input := Some []\<rparr>\<rparr>)
           = [foodEntry, salaryEntry]"
    by code_simp
  have b: "filteredEntries sampleEnv
             (sampleWorld\<lparr>page := (page sampleWorld)\<lparr>search_input := Some ''food''\<rparr>\<rparr>)
           = [foodEntry]"
    by code_simp
  show ?thesis
    using h [folded list_all_iff] h l a b
      C10_keyword_trimmed [of "''  ''" sampleEnv sampleWorld]
      C10_keyword_trimmed [of "'' FOOD  ''" sampleEnv sampleWorld]
    by (simp add: filteredEntries_def)
qed

end
